theory Spec2Isabelle
  imports Main "HOL-Library.Word" "HOL-Library.AList"
begin

unbundle bit_operations_syntax

section \<open>The directory tree of store/directory.go\<close>

text \<open>
  The Go code works on heap objects reached through pointers: a \<open>*Directory\<close>, the
  \<open>*Hash\<close> objects it shares with its parent and its children, and the nodes the store
  hands out. The model keeps that sharing: pointers are addresses into explicit heaps, a
  nil pointer is \<open>None\<close>, and every operation takes the state and returns the new one
  together with the error it reports, because Go leaves the heap as it is when an
  operation returns an error half way.
\<close>

subsection \<open>Data\<close>

type_synonym bytes = "8 word list"

text \<open>Addresses of \<open>Hash\<close>, \<open>Directory\<close> and \<open>File\<close> objects.\<close>

type_synonym hptr = nat
type_synonym dptr = nat
type_synonym fptr = nat

text \<open>
  A \<open>time.Time\<close> value of the Go standard library. This package never looks inside it;
  the zero value \<open>time.Time{}\<close> is \<open>0\<close>. Its binary codec is a parameter of \<open>ToProto\<close>
  and \<open>FromProto\<close> below.
\<close>

type_synonym Time = int

datatype error =
    ChecksumFailed                 \<comment> \<open>fmt.Errorf("Failed to calculate basic checksum ...")\<close>
  | Foreign string                 \<comment> \<open>an error returned by a library outside this package\<close>
  | MalformedInput string          \<comment> \<open>fmt.Errorf("Malformed input: More or less names than links in `%s`")\<close>
  | NoSuchFile string              \<comment> \<open>NoSuchFile(name)\<close>
  | StoreLookupFailed              \<comment> \<open>the store knows no node under the digest\<close>
  | TypeMismatch                   \<comment> \<open>the digest names a node of another kind\<close>
  | InvalidDigestLength            \<comment> \<open>Hash.Xor on digests that do not fit together\<close>
  | PanicNilMap                    \<comment> \<open>Go panic: assignment to entry in nil map\<close>
  | PanicIndexOutOfRange           \<comment> \<open>Go panic: index out of range\<close>
  | PanicNilPointer                \<comment> \<open>Go panic: nil pointer dereference\<close>

text \<open>
  \<open>type Directory struct\<close> (lines 15-27). \<open>parent\<close> is a \<open>*Hash\<close> that is nil for a
  directory made by \<open>newEmptyDirectory\<close>; \<open>children\<close> is a Go map, nil (\<open>None\<close>) until
  somebody makes it. The association list of a non-nil map has one entry per name, and
  its order stands for the order in which \<open>range\<close> walks the map, which Go leaves open.
  Every directory built by \<open>newEmptyDirectory\<close> or \<open>FromProto\<close> has a \<open>hash\<close> object, so
  that field is an address. The \<open>fs\<close> field is the one store of the state.
\<close>

record Directory =
  d_name :: string
  d_size :: "64 word"
  d_modTime :: Time
  d_parent :: "hptr option"
  d_hash :: hptr
  d_children :: "(string \<times> hptr) list option"
  d_id :: "64 word"

text \<open>
  Modelled from the spec: the \<open>File\<close> node of this package is not among the sources. The
  spec gives every node a name, a digest, a size and a parent reference, and calls a File
  an opaque leaf whose size and digest are supplied from outside.
\<close>

record File =
  f_name :: string
  f_size :: "64 word"
  f_parent :: "hptr option"
  f_hash :: hptr

text \<open>A value of the \<open>Node\<close> interface: a pointer together with its dynamic type.\<close>

datatype Node = NDir dptr | NFile fptr

text \<open>
  The Go heap and the store. \<open>fs_index\<close> is the digest-to-node resolution of the store
  (\<open>FS\<close>, not among the sources); \<open>fs_next_id\<close> is its id counter; \<open>h_next\<close> and
  \<open>d_next\<close> are the next unused addresses, for \<open>&Hash{...}\<close> and \<open>&Directory{...}\<close>.
\<close>

record state =
  dirs :: "dptr \<Rightarrow> Directory"
  files :: "fptr \<Rightarrow> File"
  hashes :: "hptr \<Rightarrow> bytes"
  fs_index :: "(bytes \<times> Node) list"
  fs_next_id :: "64 word"
  h_next :: hptr
  d_next :: dptr

text \<open>
  Modelled from the spec: the package-level \<open>EmptyHash\<close> is not among the sources. It is
  the \<open>*Hash\<close> of the sentinel empty digest that the spec gives a root as its parent
  digest; here it is the Hash object at address 0.
\<close>

definition EmptyHash :: hptr where
  "EmptyHash = 0"

definition upd_dir :: "dptr \<Rightarrow> (Directory \<Rightarrow> Directory) \<Rightarrow> state \<Rightarrow> state" where
  "upd_dir d f st = st\<lparr>dirs := (dirs st)(d := f (dirs st d))\<rparr>"

definition upd_file :: "fptr \<Rightarrow> (File \<Rightarrow> File) \<Rightarrow> state \<Rightarrow> state" where
  "upd_file p f st = st\<lparr>files := (files st)(p := f (files st p))\<rparr>"

text \<open>\<open>&Hash{b}\<close>: a new Hash object.\<close>

definition new_Hash :: "bytes \<Rightarrow> state \<Rightarrow> hptr \<times> state" where
  "new_Hash b st =
     (h_next st, st\<lparr>hashes := (hashes st)(h_next st := b), h_next := Suc (h_next st)\<rparr>)"

subsection \<open>The Hash type and the store\<close>

text \<open>
  Modelled from the spec: \<open>Hash.Bytes\<close> is not among the sources. It is the byte
  serialisation of the digest; the spec gives a root the empty digest as its parent
  digest, which is what a nil \<open>*Hash\<close> serialises to here.
\<close>

definition Hash_Bytes :: "state \<Rightarrow> hptr option \<Rightarrow> bytes" where
  "Hash_Bytes st p = (case p of None \<Rightarrow> [] | Some h \<Rightarrow> hashes st h)"

text \<open>
  Modelled from the spec: the combination of two digests behind \<open>Hash.Xor\<close>, which is
  not among the sources. The spec's \<open>combine\<close> is a pure function of the two digests,
  commutative, associative and self-inverse, on digests of one fixed size: the bytewise
  exclusive or.
\<close>

definition combine :: "bytes \<Rightarrow> bytes \<Rightarrow> bytes" where
  "combine a b = map2 (XOR) a b"

text \<open>
  Modelled from the spec: \<open>Hash.Xor\<close> is not among the sources. The call
  \<open>d.hash.Xor(hash)\<close> returns only an error, so the method changes its receiver in
  place: the Hash object at \<open>h\<close> gets the combined digest, for everybody who holds a
  pointer to it. The only digest failure the spec names is the one of a wrong length,
  reported here when the two digests differ in length.
\<close>

definition Hash_Xor :: "hptr \<Rightarrow> hptr \<Rightarrow> state \<Rightarrow> error option \<times> state" where
  "Hash_Xor h other st =
     (if length (hashes st h) \<noteq> length (hashes st other) then (Some InvalidDigestLength, st)
      else (None, st\<lparr>hashes := (hashes st)(h := combine (hashes st h) (hashes st other))\<rparr>))"

text \<open>
  Modelled from the spec: \<open>FS.NodeByHash\<close> is not among the sources. The spec's
  \<open>nodeByDigest\<close> resolves any node variant; a failed resolution is
  \<open>StoreLookupFailed\<close>. The digest looked up is the one the Hash object holds at the time
  of the call.
\<close>

definition NodeByHash :: "state \<Rightarrow> hptr \<Rightarrow> error + Node" where
  "NodeByHash st h =
     (case map_of (fs_index st) (hashes st h) of
        None \<Rightarrow> Inl StoreLookupFailed
      | Some nd \<Rightarrow> Inr nd)"

text \<open>
  Modelled from the spec: \<open>FS.DirectoryByHash\<close> is not among the sources. The spec's
  \<open>directoryByDigest\<close> resolves a Directory and fails with a type mismatch when the digest
  names a node of another kind.
\<close>

definition DirectoryByHash :: "state \<Rightarrow> hptr \<Rightarrow> error + dptr" where
  "DirectoryByHash st h =
     (case map_of (fs_index st) (hashes st h) of
        None \<Rightarrow> Inl StoreLookupFailed
      | Some (NDir d) \<Rightarrow> Inr d
      | Some (NFile f) \<Rightarrow> Inl TypeMismatch)"

text \<open>
  Modelled from the spec: \<open>FS.NextID\<close> is not among the sources. The spec's \<open>nextId\<close>
  issues a fresh id from a store-wide, increasing counter.
\<close>

definition NextID :: "state \<Rightarrow> error + (64 word \<times> state)" where
  "NextID st = Inr (fs_next_id st, st\<lparr>fs_next_id := fs_next_id st + 1\<rparr>)"

subsection \<open>The Node interface\<close>

text \<open>
  Modelled from the spec: the methods of a File are not among the sources. For a
  directory the four functions below are \<open>Name\<close>, \<open>Hash\<close>, \<open>Size\<close> (lines 144-154)
  and \<open>SetParent\<close> (lines 177-186) of \<open>*Directory\<close>; for a File they are the same reads
  and the same \<open>SetParent\<close>, after the node contract the spec gives every variant.
\<close>

definition Node_Name :: "state \<Rightarrow> Node \<Rightarrow> string" where
  "Node_Name st nd = (case nd of NDir d \<Rightarrow> d_name (dirs st d) | NFile f \<Rightarrow> f_name (files st f))"

definition Node_Hash :: "state \<Rightarrow> Node \<Rightarrow> hptr" where
  "Node_Hash st nd = (case nd of NDir d \<Rightarrow> d_hash (dirs st d) | NFile f \<Rightarrow> f_hash (files st f))"

definition Node_Size :: "state \<Rightarrow> Node \<Rightarrow> 64 word" where
  "Node_Size st nd = (case nd of NDir d \<Rightarrow> d_size (dirs st d) | NFile f \<Rightarrow> f_size (files st f))"

definition SetParent :: "Node \<Rightarrow> Node option \<Rightarrow> state \<Rightarrow> error option \<times> state" where
  "SetParent this nd st =
     (let p = (case nd of None \<Rightarrow> EmptyHash | Some n \<Rightarrow> Node_Hash st n)
      in (None, case this of
                  NDir d \<Rightarrow> upd_dir d (\<lambda>r. r\<lparr>d_parent := Some p\<rparr>) st
                | NFile f \<Rightarrow> upd_file f (\<lambda>r. r\<lparr>f_parent := Some p\<rparr>) st))"

text \<open>\<open>NChildren\<close> (lines 160-162): \<open>len\<close> of a nil map is 0.\<close>

definition children_list :: "state \<Rightarrow> dptr \<Rightarrow> (string \<times> hptr) list" where
  "children_list st d = (case d_children (dirs st d) of None \<Rightarrow> [] | Some cs \<Rightarrow> cs)"

definition NChildren :: "state \<Rightarrow> dptr \<Rightarrow> nat" where
  "NChildren st d = length (children_list st d)"

text \<open>\<open>Child\<close> (lines 164-167): the body is \<open>return nil, nil\<close>.\<close>

definition Child :: "state \<Rightarrow> dptr \<Rightarrow> string \<Rightarrow> error + Node option" where
  "Child st d name = Inr None"

text \<open>Modelled from the spec: a File is a leaf, so it has no child under any name.\<close>

definition Node_Child :: "state \<Rightarrow> Node \<Rightarrow> string \<Rightarrow> error + Node option" where
  "Node_Child st nd name = (case nd of NDir d \<Rightarrow> Child st d name | NFile f \<Rightarrow> Inr None)"

subsection \<open>Tree movement\<close>

text \<open>
  \<open>VisitChildren\<close> (lines 198-211): every child digest is resolved with
  \<open>DirectoryByHash\<close>; the first error ends the loop.
\<close>

fun VisitChildren_loop ::
  "(dptr \<Rightarrow> state \<Rightarrow> error option \<times> state) \<Rightarrow> hptr list \<Rightarrow> state \<Rightarrow> error option \<times> state" where
  "VisitChildren_loop fn [] st = (None, st)"
| "VisitChildren_loop fn (h # hs) st =
     (case DirectoryByHash st h of
        Inl e \<Rightarrow> (Some e, st)
      | Inr child \<Rightarrow>
          (case fn child st of
             (Some e, st') \<Rightarrow> (Some e, st')
           | (None, st') \<Rightarrow> VisitChildren_loop fn hs st'))"

definition VisitChildren ::
  "dptr \<Rightarrow> (dptr \<Rightarrow> state \<Rightarrow> error option \<times> state) \<Rightarrow> state \<Rightarrow> error option \<times> state" where
  "VisitChildren d fn st = VisitChildren_loop fn (map snd (children_list st d)) st"

text \<open>
  \<open>Up\<close> (lines 213-228). The loop runs while \<open>curr.parent != nil\<close>: it visits \<open>curr\<close>,
  then asks the store for the directory under \<open>curr.parent\<close>. Nothing bounds the number
  of rounds (the store may lead back to a directory already seen), so the model counts
  rounds: \<open>None\<close> means the loop was still running after \<open>k\<close> of them. A visitor that left
  \<open>curr.parent\<close> nil would make the lookup dereference nil.
\<close>

fun Up ::
  "nat \<Rightarrow> (dptr \<Rightarrow> state \<Rightarrow> error option \<times> state) \<Rightarrow> dptr \<Rightarrow> state \<Rightarrow> (error option \<times> state) option" where
  "Up 0 visit cur st = None"
| "Up (Suc k) visit cur st =
     (case d_parent (dirs st cur) of
        None \<Rightarrow> Some (None, st)
      | Some _ \<Rightarrow>
          (case visit cur st of
             (Some e, st') \<Rightarrow> Some (Some e, st')
           | (None, st') \<Rightarrow>
               (case d_parent (dirs st' cur) of
                  None \<Rightarrow> Some (Some PanicNilPointer, st')
                | Some p \<Rightarrow>
                    (case DirectoryByHash st' p of
                       Inl e \<Rightarrow> Some (Some e, st')
                     | Inr nxt \<Rightarrow> Up k visit nxt st'))))"

text \<open>\<open>xorHash\<close> (lines 230-239).\<close>

definition xorHash :: "dptr \<Rightarrow> hptr \<Rightarrow> state \<Rightarrow> error option \<times> state" where
  "xorHash d hash st =
     (case Hash_Xor (d_hash (dirs st d)) hash st of
        (Some e, st') \<Rightarrow> (Some e, st')
      | (None, st') \<Rightarrow>
          VisitChildren d (\<lambda>child. SetParent (NDir child) (Some (NDir d))) st')"

text \<open>
  \<open>Walk\<close> (lines 241-273). The visitor works on a value of its own (\<open>'a\<close>); the tree is
  only read. A node whose \<open>GetType\<close> is not \<open>NodeTypeDirectory\<close> is a File here, and a
  node of that type is a \<open>*Directory\<close>, so \<open>ErrBadNode\<close> does not arise. The \<open>for\<close> loop
  over the children returns inside its first round. The recursion follows the store, so
  it is counted like the loop of \<open>Up\<close>.
\<close>

fun Walk ::
  "nat \<Rightarrow> state \<Rightarrow> Node \<Rightarrow> bool \<Rightarrow> (Node \<Rightarrow> 'a \<Rightarrow> error option \<times> 'a) \<Rightarrow> 'a \<Rightarrow> (error option \<times> 'a) option" where
  "Walk 0 st node dfs visit acc = None"
| "Walk (Suc k) st node dfs visit acc =
     (case node of
        NFile f \<Rightarrow> Some (visit node acc)
      | NDir d \<Rightarrow>
          (case (if \<not> dfs then visit node acc else (None, acc)) of
             (Some e, acc') \<Rightarrow> Some (Some e, acc')
           | (None, acc') \<Rightarrow>
               (case children_list st d of
                  (name, link) # rest \<Rightarrow>
                    (case NodeByHash st link of
                       Inl e \<Rightarrow> Some (Some e, acc')
                     | Inr child \<Rightarrow> Walk k st child dfs visit acc')
                | [] \<Rightarrow> (if dfs then Some (visit node acc') else Some (None, acc')))))"

subsection \<open>Path lookup\<close>

text \<open>\<open>strings.Split(s, "/")\<close>: the pieces between the slashes, at least one.\<close>

fun split_slash :: "string \<Rightarrow> string list" where
  "split_slash [] = [[]]"
| "split_slash (c # cs) =
     (if c = CHR ''/'' then [] # split_slash cs
      else (case split_slash cs of
              [] \<Rightarrow> [[c]]
            | p # ps \<Rightarrow> (c # p) # ps))"

fun join_slash :: "string list \<Rightarrow> string" where
  "join_slash [] = []"
| "join_slash [p] = p"
| "join_slash (p # q # ps) = p @ ''/'' @ join_slash (q # ps)"

text \<open>
  \<open>path.Clean\<close> of the Go standard library, by its documented rules: empty elements and
  \<open>.\<close> go, \<open>..\<close> removes the element before it, a \<open>..\<close> at the start of a rooted path
  goes, the empty result is \<open>.\<close>.
\<close>

fun clean_elems :: "bool \<Rightarrow> string list \<Rightarrow> string list \<Rightarrow> string list" where
  "clean_elems rooted out [] = rev out"
| "clean_elems rooted out (c # cs) =
     (if c = [] \<or> c = ''.'' then clean_elems rooted out cs
      else if c = ''..'' then
        (case out of
           [] \<Rightarrow> (if rooted then clean_elems rooted [] cs else clean_elems rooted [c] cs)
         | x # xs \<Rightarrow> (if x = ''..'' then clean_elems rooted (c # out) cs
                      else clean_elems rooted xs cs))
      else clean_elems rooted (c # out) cs)"

definition path_Clean :: "string \<Rightarrow> string" where
  "path_Clean p =
     (case p of
        [] \<Rightarrow> ''.''
      | c # _ \<Rightarrow>
          (let rooted = (c = CHR ''/'');
               res = (if rooted then ''/'' else []) @ join_slash (clean_elems rooted [] (split_slash p))
           in if res = [] then ''.'' else res))"

text \<open>
  Modelled from the spec: \<open>prefixSlash\<close> is not among the sources. The spec only says
  that lookup normalises its path; by its name the helper puts a slash in front of a
  path that has none.
\<close>

definition prefixSlash :: "string \<Rightarrow> string" where
  "prefixSlash s = (case s of c # _ \<Rightarrow> (if c = CHR ''/'' then s else CHR ''/'' # s) | [] \<Rightarrow> ''/'')"

text \<open>\<open>Lookup\<close> (lines 275-298).\<close>

fun Lookup_loop :: "state \<Rightarrow> Node \<Rightarrow> string list \<Rightarrow> error + Node option" where
  "Lookup_loop st cur [] = Inr (Some cur)"
| "Lookup_loop st cur (elem # elems) =
     (case Node_Child st cur elem of
        Inl e \<Rightarrow> Inl e
      | Inr None \<Rightarrow> Inr None
      | Inr (Some nxt) \<Rightarrow> Lookup_loop st nxt elems)"

definition Lookup :: "state \<Rightarrow> dptr \<Rightarrow> string \<Rightarrow> error + Node option" where
  "Lookup st d repoPath =
     (let elems = split_slash (prefixSlash (path_Clean repoPath))
      in if length elems = 1 then Inr (Some (NDir d))
         else Lookup_loop st (NDir d) elems)"

subsection \<open>State altering methods\<close>

text \<open>
  \<open>Add\<close> (lines 303-312). The first statement writes into the children map, which
  panics on a nil map. The closure given to \<open>Up\<close> is \<open>Add_visit\<close>.
\<close>

definition Add_visit :: "64 word \<Rightarrow> hptr \<Rightarrow> dptr \<Rightarrow> state \<Rightarrow> error option \<times> state" where
  "Add_visit nodeSize nodeHash parent st =
     xorHash parent nodeHash (upd_dir parent (\<lambda>r. r\<lparr>d_size := d_size r + nodeSize\<rparr>) st)"

definition Add :: "nat \<Rightarrow> dptr \<Rightarrow> Node \<Rightarrow> state \<Rightarrow> (error option \<times> state) option" where
  "Add k d nd st =
     (case d_children (dirs st d) of
        None \<Rightarrow> Some (Some PanicNilMap, st)
      | Some cs \<Rightarrow>
          (let st1 = upd_dir d (\<lambda>r. r\<lparr>d_children :=
                        Some (AList.update (Node_Name st nd) (Node_Hash st nd) cs)\<rparr>) st;
               nodeSize = Node_Size st1 nd;
               nodeHash = Node_Hash st1 nd
           in Up k (Add_visit nodeSize nodeHash) d st1))"

text \<open>
  \<open>RemoveChild\<close> (lines 318-338). Reading a nil map finds nothing. The closure given
  to \<open>Up\<close> is \<open>Remove_visit\<close>.
\<close>

definition Remove_visit :: "64 word \<Rightarrow> hptr \<Rightarrow> dptr \<Rightarrow> state \<Rightarrow> error option \<times> state" where
  "Remove_visit nodeSize nodeHash parent st =
     xorHash parent nodeHash (upd_dir parent (\<lambda>r. r\<lparr>d_size := d_size r - nodeSize\<rparr>) st)"

definition RemoveChild :: "nat \<Rightarrow> dptr \<Rightarrow> Node \<Rightarrow> state \<Rightarrow> (error option \<times> state) option" where
  "RemoveChild k d nd st =
     (let name = Node_Name st nd
      in case map_of (children_list st d) name of
           None \<Rightarrow> Some (Some (NoSuchFile name), st)
         | Some _ \<Rightarrow>
             (case SetParent nd None st of
                (Some e, st1) \<Rightarrow> Some (Some e, st1)
              | (None, st1) \<Rightarrow>
                  (let st2 = upd_dir d (\<lambda>r. r\<lparr>d_children :=
                                Some (AList.delete name (children_list st1 d))\<rparr>) st1;
                       nodeSize = Node_Size st2 nd;
                       nodeHash = Node_Hash st2 nd
                   in Up k (Remove_visit nodeSize nodeHash) d st2)))"

text \<open>
  \<open>newEmptyDirectory\<close> (lines 31-61). \<open>mh\<close> is what \<open>multihash.Sum\<close> returns for the
  path of the new directory (lines 35-36): the hash function and \<open>NodePath\<close> are outside
  these sources. The struct literal sets \<open>fs\<close>, \<open>id\<close>, \<open>hash\<close> and \<open>name\<close>; every
  other field keeps its zero value, so \<open>parent\<close> and \<open>children\<close> are nil.
\<close>

definition newEmptyDirectory ::
  "nat \<Rightarrow> error + bytes \<Rightarrow> dptr option \<Rightarrow> string \<Rightarrow> state \<Rightarrow> ((error + dptr) \<times> state) option" where
  "newEmptyDirectory k mh parent name st =
     (case mh of
        Inl e \<Rightarrow> Some (Inl ChecksumFailed, st)
      | Inr digest \<Rightarrow>
          (case NextID st of
             Inl e \<Rightarrow> Some (Inl e, st)
           | Inr (new_id, st1) \<Rightarrow>
               (let (h, st2) = new_Hash digest st1;
                    dir = d_next st2;
                    st3 = st2\<lparr>dirs := (dirs st2)(dir :=
                              \<lparr>d_name = name, d_size = 0, d_modTime = 0, d_parent = None,
                               d_hash = h, d_children = None, d_id = new_id\<rparr>),
                            d_next := Suc dir\<rparr>
                in case parent of
                     None \<Rightarrow> Some (Inr dir, st3)
                   | Some p \<Rightarrow>
                       (case Add k p (NDir dir) st3 of
                          None \<Rightarrow> None
                        | Some (Some e, st4) \<Rightarrow> Some (Inl e, st4)
                        | Some (None, st4) \<Rightarrow> Some (Inr dir, st4)))))"

subsection \<open>Marshalling\<close>

text \<open>
  The message \<open>wire.Node\<close> with its \<open>Directory\<close> part, as the \<open>Get...\<close> accessors show
  it: a missing \<open>Directory\<close> part reads as empty \<open>Links\<close> and \<open>Names\<close>.
\<close>

datatype NodeType = NodeType_FILE | NodeType_DIRECTORY | NodeType_COMMIT

record wire_Directory =
  Links :: "bytes list"
  Names :: "string list"

record wire_Node =
  w_ID :: "64 word"
  w_Type :: NodeType
  w_ModTime :: bytes
  w_NodeSize :: "64 word"
  w_Hash :: bytes
  w_Name :: string
  w_Parent :: bytes
  w_Directory :: "wire_Directory option"

definition GetLinks :: "wire_Directory option \<Rightarrow> bytes list" where
  "GetLinks pbd = (case pbd of None \<Rightarrow> [] | Some m \<Rightarrow> Links m)"

definition GetNames :: "wire_Directory option \<Rightarrow> string list" where
  "GetNames pbd = (case pbd of None \<Rightarrow> [] | Some m \<Rightarrow> Names m)"

text \<open>
  \<open>ToProto\<close> (lines 65-92). \<open>marshal\<close> is \<open>time.Time.MarshalBinary\<close>. The two lists
  are filled in the order \<open>range\<close> walks the children.
\<close>

definition ToProto :: "(Time \<Rightarrow> error + bytes) \<Rightarrow> state \<Rightarrow> dptr \<Rightarrow> error + wire_Node" where
  "ToProto marshal st d =
     (case marshal (d_modTime (dirs st d)) of
        Inl e \<Rightarrow> Inl e
      | Inr binModTime \<Rightarrow>
          Inr \<lparr>w_ID = d_id (dirs st d),
               w_Type = NodeType_DIRECTORY,
               w_ModTime = binModTime,
               w_NodeSize = d_size (dirs st d),
               w_Hash = Hash_Bytes st (Some (d_hash (dirs st d))),
               w_Name = d_name (dirs st d),
               w_Parent = Hash_Bytes st (d_parent (dirs st d)),
               w_Directory = Some \<lparr>Links = map (\<lambda>(name, link). Hash_Bytes st (Some link)) (children_list st d),
                                    Names = map fst (children_list st d)\<rparr>\<rparr>)"

text \<open>
  \<open>FromProto\<close> (lines 103-131). \<open>unmarshal\<close> is \<open>time.Time.UnmarshalBinary\<close>. The loop
  body first tests \<open>idx >= 0 && idx < len(links)\<close> and returns the error when the test
  holds; after it comes \<open>links[idx]\<close>, an indexing that panics out of range.
\<close>

definition index_links :: "bytes list \<Rightarrow> nat \<Rightarrow> error + bytes" where
  "index_links links idx = (if idx < length links then Inr (links ! idx) else Inl PanicIndexOutOfRange)"

fun FromProto_loop ::
  "dptr \<Rightarrow> bytes list \<Rightarrow> nat \<Rightarrow> string list \<Rightarrow> state \<Rightarrow> error option \<times> state" where
  "FromProto_loop d links idx [] st = (None, st)"
| "FromProto_loop d links idx (name # names) st =
     (if 0 \<le> idx \<and> idx < length links then (Some (MalformedInput (d_name (dirs st d))), st)
      else (case index_links links idx of
              Inl e \<Rightarrow> (Some e, st)
            | Inr link \<Rightarrow>
                (let (h, st1) = new_Hash link st;
                     st2 = upd_dir d (\<lambda>r. r\<lparr>d_children :=
                               Some (AList.update name h (children_list st1 d))\<rparr>) st1
                 in FromProto_loop d links (Suc idx) names st2)))"

definition FromProto ::
  "(bytes \<Rightarrow> error + Time) \<Rightarrow> dptr \<Rightarrow> wire_Node \<Rightarrow> state \<Rightarrow> error option \<times> state" where
  "FromProto unmarshal d pnd st =
     (let pbd = w_Directory pnd
      in case unmarshal (w_ModTime pnd) of
           Inl e \<Rightarrow> (Some e, st)
         | Inr modTime \<Rightarrow>
             (let (p, st1) = new_Hash (w_Parent pnd) st;
                  (h, st2) = new_Hash (w_Hash pnd) st1;
                  st3 = upd_dir d (\<lambda>r. r\<lparr>d_id := w_ID pnd, d_modTime := modTime,
                            d_parent := Some p, d_size := w_NodeSize pnd, d_hash := h,
                            d_name := w_Name pnd, d_children := Some []\<rparr>) st2
              in FromProto_loop d (GetLinks pbd) 0 (GetNames pbd) st3))"

section \<open>Describing a walk\<close>







text \<open>The digest a directory holds, and its children, with the directory first.\<close>

definition own_digest :: "dptr \<Rightarrow> state \<Rightarrow> bytes" where
  "own_digest d st = hashes st (d_hash (dirs st d))"













section \<open>A concrete tree\<close>

text \<open>
  One state for the concrete statements below. The root (directory 0, no parent) holds
  \<open>dirA\<close> (directory 1), whose \<open>parent\<close> is the root's Hash object and whose own Hash
  object is the link in the root's children map, as \<open>Add\<close> and \<open>SetParent\<close> share them.
  \<open>dirC\<close> (directory 2, size 7) and the files \<open>fileB\<close> (file 0, size 7) and \<open>a.txt\<close>
  (file 1, size 10) are known to the store. \<open>dirD\<close> (directory 3) holds the two files.
  Directory 4 is a second directory of the name \<open>dirC\<close>, of size 3. \<open>dirX\<close>
  (directory 5) has no children; its \<open>parent\<close> is the Hash object of \<open>dirD\<close>.
\<close>

definition blank_dir :: Directory where
  "blank_dir = \<lparr>d_name = [], d_size = 0, d_modTime = 0, d_parent = None, d_hash = EmptyHash,
                d_children = None, d_id = 0\<rparr>"

definition blank_file :: File where
  "blank_file = \<lparr>f_name = [], f_size = 0, f_parent = None, f_hash = EmptyHash\<rparr>"

definition digest_root :: bytes where
  "digest_root = [0x0A, 0x0B]"

definition digest_dirA :: bytes where
  "digest_dirA = [0x10, 0x20]"

definition digest_fileB :: bytes where
  "digest_fileB = [0x01, 0x02]"

definition digest_dirC :: bytes where
  "digest_dirC = [0x04, 0x08]"

definition digest_h1 :: bytes where
  "digest_h1 = [0x40, 0x80]"

definition digest_dirD :: bytes where
  "digest_dirD = [0x55, 0x66]"

definition digest_dirC2 :: bytes where
  "digest_dirC2 = [0x03, 0x05]"

definition digest_dirX :: bytes where
  "digest_dirX = [0x09, 0x90]"

definition digest_new :: bytes where
  "digest_new = [0x70, 0x07]"

definition tree :: state where
  "tree = \<lparr>dirs = (\<lambda>_. blank_dir)
              (0 := \<lparr>d_name = [], d_size = 0, d_modTime = 0, d_parent = None, d_hash = 1,
                     d_children = Some [(''dirA'', 2)], d_id = 1\<rparr>,
               1 := \<lparr>d_name = ''dirA'', d_size = 0, d_modTime = 0, d_parent = Some 1, d_hash = 2,
                     d_children = Some [], d_id = 2\<rparr>,
               2 := \<lparr>d_name = ''dirC'', d_size = 7, d_modTime = 0, d_parent = None, d_hash = 4,
                     d_children = None, d_id = 4\<rparr>,
               3 := \<lparr>d_name = ''dirD'', d_size = 17, d_modTime = 0, d_parent = Some EmptyHash,
                     d_hash = 6, d_children = Some [(''fileB'', 3), (''a.txt'', 5)], d_id = 6\<rparr>,
               4 := \<lparr>d_name = ''dirC'', d_size = 3, d_modTime = 0, d_parent = None, d_hash = 7,
                     d_children = None, d_id = 7\<rparr>,
               5 := \<lparr>d_name = ''dirX'', d_size = 0, d_modTime = 0, d_parent = Some 6, d_hash = 8,
                     d_children = Some [], d_id = 8\<rparr>),
            files = (\<lambda>_. blank_file)
              (0 := \<lparr>f_name = ''fileB'', f_size = 7, f_parent = None, f_hash = 3\<rparr>,
               1 := \<lparr>f_name = ''a.txt'', f_size = 10, f_parent = None, f_hash = 5\<rparr>),
            hashes = (\<lambda>_. [])(1 := digest_root, 2 := digest_dirA, 3 := digest_fileB,
                                4 := digest_dirC, 5 := digest_h1, 6 := digest_dirD,
                                7 := digest_dirC2, 8 := digest_dirX),
            fs_index = [(digest_root, NDir 0), (digest_dirA, NDir 1), (digest_fileB, NFile 0),
                        (digest_dirC, NDir 2), (digest_h1, NFile 1), (digest_dirD, NDir 3),
                        (digest_dirC2, NDir 4), (digest_dirX, NDir 5)],
            fs_next_id = 9, h_next = 9, d_next = 6\<rparr>"

text \<open>The message \<open>ToProto\<close> makes of \<open>dirD\<close>, with the child lists left open.\<close>

definition dir_message :: "bytes \<Rightarrow> string list \<Rightarrow> bytes list \<Rightarrow> wire_Node" where
  "dir_message m names links =
     \<lparr>w_ID = 6, w_Type = NodeType_DIRECTORY, w_ModTime = m, w_NodeSize = 17,
      w_Hash = digest_dirD, w_Name = ''dirD'', w_Parent = [],
      w_Directory = Some \<lparr>Links = links, Names = names\<rparr>\<rparr>"

text \<open>A visitor for \<open>Walk\<close> that writes down the nodes it is given, in order.\<close>

definition visit_log :: "Node \<Rightarrow> Node list \<Rightarrow> error option \<times> Node list" where
  "visit_log nd seen = (None, seen @ [nd])"

section \<open>Properties\<close>

lemmas model_defs =
  Add_def RemoveChild_def upd_dir_def upd_file_def Node_Name_def Node_Hash_def Node_Size_def
  Add_visit_def Remove_visit_def SetParent_def EmptyHash_def xorHash_def Hash_Xor_def
  VisitChildren_def children_list_def DirectoryByHash_def NodeByHash_def combine_def


lemmas digest_defs =
  digest_root_def digest_dirA_def digest_fileB_def digest_dirC_def digest_h1_def digest_dirD_def
  digest_dirC2_def digest_dirX_def digest_new_def

subsection \<open>Adding to a new root\<close>

text \<open>
  C1. The claim: a root Directory D created empty, with no parent, has size 10 and digest
  combine(initial, h1) after \<open>add\<close> of the File \<open>a.txt\<close> (size 10, digest h1), and size 0
  and the initial digest again after \<open>removeChild\<close>.

  The code does not get that far. \<open>newEmptyDirectory\<close> leaves the children map nil, so
  the first statement of \<open>Add\<close> panics and D stays as it was: size 0, initial digest.
  With a children map put in by hand, \<open>Add\<close> records the child and returns no error,
  but the loop of \<open>Up\<close> never runs for a directory whose \<open>parent\<close> is nil: size and
  digest of D are still 0 and the initial digest.
\<close>

theorem new_root_Add_panics:
  "\<exists>D st. newEmptyDirectory 0 (Inr digest_new) None ''root'' tree = Some (Inr D, st)
     \<and> d_parent (dirs st D) = None \<and> d_children (dirs st D) = None
     \<and> d_size (dirs st D) = 0 \<and> hashes st (d_hash (dirs st D)) = digest_new
     \<and> Node_Name st (NFile 1) = ''a.txt'' \<and> Node_Size st (NFile 1) = 10
     \<and> hashes st (Node_Hash st (NFile 1)) = digest_h1
     \<and> Add k D (NFile 1) st = Some (Some PanicNilMap, st)
     \<and> (\<exists>st'. Add (Suc k) D (NFile 1) (upd_dir D (\<lambda>r. r\<lparr>d_children := Some []\<rparr>) st)
                 = Some (None, st')
           \<and> d_children (dirs st' D) = Some [(''a.txt'', 5)]
           \<and> d_size (dirs st' D) = 0 \<and> hashes st' (d_hash (dirs st' D)) = digest_new)"
  by (simp add: newEmptyDirectory_def NextID_def new_Hash_def tree_def model_defs digest_defs)

subsection \<open>The upward walk\<close>

text \<open>
  C2. The claim: an \<open>add\<close> applies the size addition and the digest fold to every
  ancestor up to and including the root; in root, dirA, fileB a single \<open>add\<close> of fileB
  updates dirA and the root.

  In the tree above, \<open>Add\<close> of \<open>fileB\<close> to \<open>dirA\<close> updates \<open>dirA\<close> and then fails:
  \<open>xorHash\<close> resolves the new child with \<open>DirectoryByHash\<close>, the child is a File, and
  the type mismatch ends the walk below the root. The root keeps its size and digest.
  With the directory \<open>dirC\<close> in place of the file every lookup succeeds and \<open>Add\<close>
  returns no error, and still the root keeps its size and digest: the loop of \<open>Up\<close>
  ends at the directory whose \<open>parent\<close> is nil before it visits it.
\<close>

theorem Add_file_stops_below_root:
  "(\<exists>st. Add (Suc k) 1 (NFile 0) tree = Some (Some TypeMismatch, st)
     \<and> d_size (dirs st 1) = 7 \<and> own_digest 1 st = combine digest_dirA digest_fileB
     \<and> d_size (dirs st 0) = d_size (dirs tree 0) \<and> own_digest 0 st = own_digest 0 tree)
   \<and> (\<exists>st. Add (Suc (Suc k)) 1 (NDir 2) tree = Some (None, st)
     \<and> d_size (dirs st 1) = 7 \<and> own_digest 1 st = combine digest_dirA digest_dirC
     \<and> d_size (dirs st 0) = d_size (dirs tree 0) \<and> own_digest 0 st = own_digest 0 tree)"
  by (simp add: tree_def model_defs digest_defs own_digest_def)


subsection \<open>The wire format\<close>

text \<open>What the decoding loop returns, for any lists of names and links.\<close>

lemma FromProto_loop_outcome:
  "fst (FromProto_loop d links 0 names st) =
     (case names of
        [] \<Rightarrow> None
      | _ # _ \<Rightarrow> (if links = [] then Some PanicIndexOutOfRange
                  else Some (MalformedInput (d_name (dirs st d)))))"
  by (cases names) (simp_all add: index_links_def)

text \<open>
  C4. The claim: decoding fails with MalformedInput whenever the name list and the link
  list differ in length, whichever is longer, and succeeds only when they are equally long.

  The test in the loop of \<open>FromProto\<close> is the wrong way round. With no name and one link
  the decoding succeeds; with one name and one link it reports the malformed input; with
  one name and no link it panics on \<open>links[idx]\<close>. The time codec is taken to accept the
  message (it returns some \<open>t\<close>).
\<close>

theorem FromProto_length_check_inverted:
  "fst (FromProto (\<lambda>_. Inr t) d (dir_message m [] [digest_fileB]) st) = None
   \<and> fst (FromProto (\<lambda>_. Inr t) d (dir_message m [''fileB''] [digest_fileB]) st)
       = Some (MalformedInput ''dirD'')
   \<and> fst (FromProto (\<lambda>_. Inr t) d (dir_message m [''fileB''] []) st) = Some PanicIndexOutOfRange"
  by (simp add: FromProto_def dir_message_def GetLinks_def GetNames_def new_Hash_def upd_dir_def
        index_links_def split: prod.splits)

text \<open>
  C5. The claim: encoding a Directory and decoding the message gives every field back,
  the children map included.

  \<open>ToProto\<close> of \<open>dirD\<close> lists its two children; \<open>FromProto\<close> of that message reports
  the malformed input at the first name and leaves the children map empty.
\<close>

theorem ToProto_FromProto_loses_children:
  "ToProto (\<lambda>_. Inr m) tree 3 = Inr (dir_message m [''fileB'', ''a.txt''] [digest_fileB, digest_h1])
   \<and> fst (FromProto (\<lambda>_. Inr t) d (dir_message m [''fileB'', ''a.txt''] [digest_fileB, digest_h1]) st)
       = Some (MalformedInput ''dirD'')
   \<and> d_children (dirs (snd (FromProto (\<lambda>_. Inr t) d
          (dir_message m [''fileB'', ''a.txt''] [digest_fileB, digest_h1]) st)) d) = Some []"
  by (simp add: ToProto_def FromProto_def dir_message_def GetLinks_def GetNames_def new_Hash_def
        upd_dir_def Hash_Bytes_def children_list_def tree_def EmptyHash_def digest_defs
        split: prod.splits)

subsection \<open>Lookup and Walk\<close>

lemma split_slash_prefixSlash: "\<exists>e es. split_slash (prefixSlash p) = [] # e # es"
proof -
  have ne: "\<exists>e es. split_slash s = e # es" for s
    by (induction s) (auto split: list.splits)
  have "\<exists>s. prefixSlash p = CHR ''/'' # s"
    by (cases p) (simp_all add: prefixSlash_def)
  then obtain s where "prefixSlash p = CHR ''/'' # s" ..
  then show ?thesis using ne [of s] by auto
qed

text \<open>
  The path always splits into at least two elements, and \<open>Child\<close> finds nothing for
  the first: \<open>Lookup\<close> returns neither an error nor a node, whatever the path.
\<close>

lemma Lookup_absent: "Lookup st d repoPath = Inr None"
proof -
  obtain e es where "split_slash (prefixSlash (path_Clean repoPath)) = [] # e # es"
    using split_slash_prefixSlash by blast
  then show ?thesis
    by (simp add: Lookup_def Node_Child_def Child_def)
qed

text \<open>
  C6. The claim: \<open>child(name)\<close> returns the child stored under the name, and \<open>lookup\<close>
  returns the node registered under the path.

  The root of the tree above has the child \<open>dirA\<close>, which the store resolves; \<open>Child\<close>
  and \<open>Lookup\<close> both return no node for it.
\<close>

theorem Child_and_Lookup_find_nothing:
  "d_children (dirs tree 0) = Some [(''dirA'', 2)]
   \<and> NodeByHash tree 2 = Inr (NDir 1)
   \<and> Child tree 0 ''dirA'' = Inr None
   \<and> Lookup tree 0 ''dirA'' = Inr None"
  by (simp add: Lookup_absent Child_def tree_def NodeByHash_def digest_defs)

text \<open>
  C7. The claim: \<open>Walk\<close> visits a directory and every one of its children, before them
  or after them as \<open>depthFirst\<close> says, every node of the subtree exactly once.

  \<open>dirD\<close> has two children, both resolved by the store. The loop over the children
  returns from its first round: the walk sees \<open>dirD\<close> and \<open>fileB\<close> when
  \<open>depthFirst\<close> is false, and \<open>fileB\<close> alone when it is true; \<open>a.txt\<close> is never
  visited.
\<close>

theorem Walk_skips_siblings:
  "children_list tree 3 = [(''fileB'', 3), (''a.txt'', 5)]
   \<and> NodeByHash tree 3 = Inr (NFile 0) \<and> NodeByHash tree 5 = Inr (NFile 1)
   \<and> Walk (Suc (Suc k)) tree (NDir 3) False visit_log [] = Some (None, [NDir 3, NFile 0])
   \<and> Walk (Suc (Suc k)) tree (NDir 3) True visit_log [] = Some (None, [NFile 0])"
  by (simp add: visit_log_def tree_def children_list_def NodeByHash_def digest_defs)

subsection \<open>Removing a name that is not there\<close>

text \<open>
  C9. For every directory and every node whose name is not in the directory's children
  map, \<open>RemoveChild\<close> returns the NoSuchFile error and the state it returns is the state
  it was given: children map, size and digest are unchanged. This holds for a nil map
  too, and for any bound on the walk, which never starts.
\<close>

theorem RemoveChild_absent_name:
  "map_of (children_list st d) (Node_Name st nd) = None \<Longrightarrow>
   RemoveChild k d nd st = Some (Some (NoSuchFile (Node_Name st nd)), st)"
  by (simp add: RemoveChild_def)

theorem RemoveChild_absent_name_witness:
  "map_of (children_list tree 1) (Node_Name tree (NFile 0)) = None
   \<and> RemoveChild 3 1 (NFile 0) tree = Some (Some (NoSuchFile ''fileB''), tree)"
proof -
  have h: "map_of (children_list tree 1) (Node_Name tree (NFile 0)) = None"
    by (simp add: children_list_def tree_def)
  have n: "Node_Name tree (NFile 0) = ''fileB''"
    by (simp add: Node_Name_def tree_def)
  show ?thesis
    using h RemoveChild_absent_name [OF h, of 3] by (simp add: n)
qed

subsection \<open>A child that is not a directory\<close>



lemma DirectoryByHash_cong:
  "hashes st' = hashes st \<Longrightarrow> fs_index st' = fs_index st \<Longrightarrow>
   DirectoryByHash st' l = DirectoryByHash st l"
  by (simp add: DirectoryByHash_def)






lemma Node_reads_children_update [simp]:
  "Node_Size (upd_dir d (\<lambda>r. r\<lparr>d_children := c\<rparr>) st) nd = Node_Size st nd"
  "Node_Hash (upd_dir d (\<lambda>r. r\<lparr>d_children := c\<rparr>) st) nd = Node_Hash st nd"
  "Node_Name (upd_dir d (\<lambda>r. r\<lparr>d_children := c\<rparr>) st) nd = Node_Name st nd"
  by (auto simp: Node_Size_def Node_Hash_def Node_Name_def upd_dir_def split: Node.splits)




subsection \<open>Add followed by RemoveChild\<close>



















subsection \<open>Sequences of Add and RemoveChild\<close>



















end
